theory Spec2Isabelle
  imports Main
begin

section \<open>Python values\<close>

text \<open>
  A Python \<^verbatim>\<open>str\<close> is a sequence of Unicode code points; it is modelled as a list of
  natural numbers, so that the accented letters of the source's literals and the
  whitespace set of \<^verbatim>\<open>str.strip\<close> are what Python has. \<open>str\<close> turns an ASCII literal
  into such a string.
\<close>

type_synonym pystr = "nat list"

definition str :: "string \<Rightarrow> pystr" where
  "str s = map of_char s"

text \<open>
  Exceptions: the class, as far as an \<^verbatim>\<open>except\<close> clause of the program can tell classes
  apart, and the text that \<^verbatim>\<open>str(e)\<close> gives. Every class here derives from
  \<^verbatim>\<open>Exception\<close>; \<open>OtherException\<close> stands for any other subclass of it, by name.
\<close>

datatype exc_class =
    FileNotFoundError
  | PermissionError
  | IsADirectoryError
  | NotADirectoryError
  | OSError
  | UnicodeDecodeError
  | UnicodeEncodeError
  | ValueError
  | KeyError
  | OtherException pystr

datatype pyexn = PyExn (exc_class: exc_class) (exc_str: pystr)

text \<open>
  \<^verbatim>\<open>str.strip()\<close> without argument removes the characters for which \<^verbatim>\<open>str.isspace\<close>
  holds from both ends.
\<close>

definition isspace :: "nat \<Rightarrow> bool" where
  "isspace c =
     ((9 \<le> c \<and> c \<le> 13) \<or> (28 \<le> c \<and> c \<le> 32) \<or> c = 133 \<or> c = 160 \<or> c = 5760
      \<or> (8192 \<le> c \<and> c \<le> 8202) \<or> c = 8232 \<or> c = 8233 \<or> c = 8239 \<or> c = 8287
      \<or> c = 12288)"

definition strip :: "pystr \<Rightarrow> pystr" where
  "strip s = rev (dropWhile isspace (rev (dropWhile isspace s)))"

subsection \<open>\<^verbatim>\<open>str.format\<close> with keyword arguments\<close>

text \<open>
  The scanner of \<^verbatim>\<open>str.format\<close>: \<^verbatim>\<open>{{\<close> and \<^verbatim>\<open>}}\<close> are the escaped braces, \<^verbatim>\<open>{name}\<close> is
  replaced by the keyword argument of that name, a single \<^verbatim>\<open>}\<close> or an unclosed \<^verbatim>\<open>{\<close> is
  a \<^verbatim>\<open>ValueError\<close>, an unknown name a \<^verbatim>\<open>KeyError\<close>. The first argument is the name of
  the replacement field being read, if any. Only plain keyword fields are modelled
  (no conversion, format specification, attribute or index), which is all the
  program's template has. The value is inserted as it is: the scanner goes on after
  the closing brace of the template, never inside the inserted value.
\<close>

fun formatar :: "pystr option \<Rightarrow> pystr \<Rightarrow> (pystr \<times> pystr) list \<Rightarrow> pyexn + pystr" where
  "formatar None [] kw = Inr []"
| "formatar (Some n) [] kw = Inl (PyExn ValueError (str ''expected } before end of string''))"
| "formatar (Some n) (c # cs) kw =
     (if c = 125 then
        (case map_of kw (rev n) of
           None \<Rightarrow> Inl (PyExn KeyError (rev n))
         | Some v \<Rightarrow>
             (case formatar None cs kw of
                Inl e \<Rightarrow> Inl e
              | Inr r \<Rightarrow> Inr (v @ r)))
      else formatar (Some (c # n)) cs kw)"
| "formatar None (c # cs) kw =
     (if c = 123 then
        (case cs of
           [] \<Rightarrow> Inl (PyExn ValueError (str ''Single { encountered in format string''))
         | d # ds \<Rightarrow>
             if d = 123 then
               (case formatar None ds kw of
                  Inl e \<Rightarrow> Inl e
                | Inr r \<Rightarrow> Inr (123 # r))
             else formatar (Some []) cs kw)
      else if c = 125 then
        (case cs of
           [] \<Rightarrow> Inl (PyExn ValueError (str ''Single } encountered in format string''))
         | d # ds \<Rightarrow>
             if d = 125 then
               (case formatar None ds kw of
                  Inl e \<Rightarrow> Inl e
                | Inr r \<Rightarrow> Inr (125 # r))
             else Inl (PyExn ValueError (str ''Single } encountered in format string'')))
      else
        (case formatar None cs kw of
           Inl e \<Rightarrow> Inl e
         | Inr r \<Rightarrow> Inr (c # r)))"

section \<open>Constants\<close>

definition KNOWLEDGE_BASE_FILE :: pystr where
  "KNOWLEDGE_BASE_FILE = str ''dados.txt''"

definition LEADS_FILE :: pystr where
  "LEADS_FILE = str ''leads.txt''"

text \<open>
  The three literal stretches of \<^verbatim>\<open>PROMPT_TEMPLATE\<close>, around its two replacement fields.
  Code point 10 is the newline, 250 is u with acute, 227 is a with tilde.
\<close>

definition prompt_antes :: pystr where
  "prompt_antes =
     [10] @ str ''Use o conte'' @ [250]
     @ str ''do abaixo como base para responder a pergunta de forma direta, sem inventar nada que n''
     @ [227] @ str ''o esteja no texto.'' @ [10, 10]
     @ str ''=== BASE DE CONHECIMENTO ==='' @ [10]"

definition prompt_meio :: pystr where
  "prompt_meio = [10, 10] @ str ''=== PERGUNTA ==='' @ [10]"

definition prompt_depois :: pystr where
  "prompt_depois =
     [10, 10] @ str ''Responda com base apenas no conte'' @ [250]
     @ str ''do da base acima.'' @ [10]"

definition PROMPT_TEMPLATE :: pystr where
  "PROMPT_TEMPLATE =
     prompt_antes @ str ''{base_conhecimento}'' @ prompt_meio
     @ str ''{pergunta_usuario}'' @ prompt_depois"

section \<open>Data\<close>

text \<open>JSON values: request bodies and the dictionaries the handlers return.\<close>

datatype json =
    JNull
  | JBool bool
  | JNum int
  | JStr pystr
  | JArr "json list"
  | JObj "(pystr \<times> json) list"

text \<open>
  What a handler gives back to the framework: the value it returns (status 200), the
  \<^verbatim>\<open>HTTPException\<close> it raises (status code and detail), or the rejection of the body by
  the validation of the declared model, before the handler runs (status 422).
\<close>

datatype http_result =
    Retorno json
  | HTTPException nat pystr
  | RequestValidationError

fun status_code :: "http_result \<Rightarrow> nat" where
  "status_code (Retorno j) = 200"
| "status_code (HTTPException c d) = c"
| "status_code RequestValidationError = 422"

record ChatRequest =
  message :: pystr

record Lead =
  name :: pystr
  email :: pystr

subsection \<open>The file system\<close>

text \<open>
  The files are a table from paths to what is there: nothing, a regular file, a
  directory, a place the process is refused, or a place where the system answers with
  another error. A regular file is modelled by the text its bytes decode to and by
  whether they decode as UTF-8 at all. The table is keyed by paths in normal form
  (components joined by single slashes, without \<^verbatim>\<open>.\<close> components and with \<^verbatim>\<open>..\<close> only in
  front). Path resolution is that of Linux, without symbolic links; the working
  directory and the root exist and can be searched.
\<close>

datatype node =
    Arquivo bool pystr
  | Diretorio
  | SemPermissao
  | ErroOS nat pystr

type_synonym fs = "pystr \<Rightarrow> node option"

function decimal :: "nat \<Rightarrow> pystr" where
  "decimal n = (if n < 10 then [48 + n] else decimal (n div 10) @ [48 + n mod 10])"
  by pat_completeness auto
termination
  by (relation "measure id") auto

declare decimal.simps [simp del]

text \<open>
  \<^verbatim>\<open>OSError\<close> picks its subclass from the error number. \<open>OSError\<close> stands for the
  class itself and for its subclasses other than the four named here. The text shows
  the path between quotes, which is its \<^verbatim>\<open>repr\<close> when the path has printable
  characters only and neither quotes nor backslashes.
\<close>

definition classe_errno :: "nat \<Rightarrow> exc_class" where
  "classe_errno errno =
     (if errno = 2 then FileNotFoundError
      else if errno = 1 \<or> errno = 13 then PermissionError
      else if errno = 20 then NotADirectoryError
      else if errno = 21 then IsADirectoryError
      else OSError)"

definition OSError_de :: "nat \<Rightarrow> pystr \<Rightarrow> pystr \<Rightarrow> pyexn" where
  "OSError_de errno strerror caminho =
     PyExn (classe_errno errno)
       (str ''[Errno '' @ decimal errno @ str ''] '' @ strerror @ str '': ''
        @ [39] @ caminho @ [39])"

definition ENOENT :: "pystr \<Rightarrow> pyexn" where
  "ENOENT caminho = OSError_de 2 (str ''No such file or directory'') caminho"

definition EACCES :: "pystr \<Rightarrow> pyexn" where
  "EACCES caminho = OSError_de 13 (str ''Permission denied'') caminho"

definition ENOTDIR :: "pystr \<Rightarrow> pyexn" where
  "ENOTDIR caminho = OSError_de 20 (str ''Not a directory'') caminho"

definition EISDIR :: "pystr \<Rightarrow> pyexn" where
  "EISDIR caminho = OSError_de 21 (str ''Is a directory'') caminho"

definition ENAMETOOLONG :: "pystr \<Rightarrow> pyexn" where
  "ENAMETOOLONG caminho = OSError_de 36 (str ''File name too long'') caminho"

text \<open>
  Encoding to UTF-8. A surrogate code point has no encoding. The strict encoder (used
  for the text written to a file) stops at the first surrogate; the encoder for file
  names lets the surrogates U+DC80 to U+DCFF through. The error names the position of
  the first offending character and spans the surrogates that follow it.
\<close>

definition surrogate :: "nat \<Rightarrow> bool" where
  "surrogate c = (55296 \<le> c \<and> c \<le> 57343)"

definition surrogateescape :: "nat \<Rightarrow> bool" where
  "surrogateescape c = (56448 \<le> c \<and> c \<le> 56575)"

fun erro_codif :: "bool \<Rightarrow> nat \<Rightarrow> pystr \<Rightarrow> (nat \<times> pystr) option" where
  "erro_codif esc i [] = None"
| "erro_codif esc i (c # cs) =
     (if surrogate c then
        (if esc \<and> surrogateescape c then erro_codif esc (Suc i) cs
         else Some (i, takeWhile surrogate (c # cs)))
      else erro_codif esc (Suc i) cs)"

definition hexdig :: "nat \<Rightarrow> nat" where
  "hexdig d = (if d < 10 then 48 + d else 87 + d)"

definition hex4 :: "nat \<Rightarrow> pystr" where
  "hex4 c = [hexdig (c div 4096 mod 16), hexdig (c div 256 mod 16),
             hexdig (c div 16 mod 16), hexdig (c mod 16)]"

definition UnicodeEncodeError_de :: "nat \<Rightarrow> pystr \<Rightarrow> pyexn" where
  "UnicodeEncodeError_de i run =
     PyExn UnicodeEncodeError
       ([39] @ str ''utf-8'' @ [39] @ str '' codec can'' @ [39] @ str ''t encode ''
        @ (case run of
             [c] \<Rightarrow> str ''character '' @ [39, 92] @ str ''u'' @ hex4 c @ [39]
                      @ str '' in position '' @ decimal i
           | _ \<Rightarrow> str ''characters in position '' @ decimal i @ str ''-''
                      @ decimal (i + length run - 1))
        @ str '': surrogates not allowed'')"

definition utf8_bytes :: "nat \<Rightarrow> nat" where
  "utf8_bytes c = (if c < 128 then 1 else if c < 2048 then 2 else if c < 65536 then 3 else 4)"

text \<open>
  The length in bytes of an encoded file name: a surrogate that the encoder for file
  names lets through stands for one byte.
\<close>

definition utf8_len :: "pystr \<Rightarrow> nat" where
  "utf8_len s = sum_list (map (\<lambda>c. if surrogateescape c then 1 else utf8_bytes c) s)"

definition NAME_MAX :: nat where
  "NAME_MAX = 255"

definition PATH_MAX :: nat where
  "PATH_MAX = 4096"

text \<open>The components of a path, between its slashes (code point 47).\<close>

fun componentes_aux :: "pystr \<Rightarrow> pystr \<Rightarrow> pystr list" where
  "componentes_aux acc [] = [rev acc]"
| "componentes_aux acc (c # cs) =
     (if c = 47 then rev acc # componentes_aux [] cs else componentes_aux (c # acc) cs)"

definition componentes :: "pystr \<Rightarrow> pystr list" where
  "componentes caminho = componentes_aux [] caminho"

fun juntar :: "pystr list \<Rightarrow> pystr" where
  "juntar [] = []"
| "juntar [c] = c"
| "juntar (c # d # ds) = c @ [47] @ juntar (d # ds)"

text \<open>
  A place reached during resolution is the list of the components that lead to it,
  from the root when the path is absolute and from the working directory otherwise;
  \<open>chave\<close> is its key in the table.
\<close>

definition chave :: "bool \<Rightarrow> pystr list \<Rightarrow> pystr" where
  "chave absoluto cur = (if absoluto then [47] else []) @ juntar cur"

definition no_em :: "fs \<Rightarrow> bool \<Rightarrow> pystr list \<Rightarrow> node option" where
  "no_em arqs absoluto cur =
     (if list_all (\<lambda>c. c = str ''..'') cur then Some Diretorio
      else arqs (chave absoluto cur))"

definition subir :: "bool \<Rightarrow> pystr list \<Rightarrow> pystr list" where
  "subir absoluto cur =
     (if cur = [] then (if absoluto then [] else [str ''..''])
      else if last cur = str ''..'' then cur @ [str ''..'']
      else butlast cur)"

text \<open>The error, if any, of going through a place as a directory.\<close>

fun entrar :: "node option \<Rightarrow> pystr \<Rightarrow> pyexn option" where
  "entrar None caminho = Some (ENOENT caminho)"
| "entrar (Some (Arquivo utf8 texto)) caminho = Some (ENOTDIR caminho)"
| "entrar (Some Diretorio) caminho = None"
| "entrar (Some SemPermissao) caminho = Some (EACCES caminho)"
| "entrar (Some (ErroOS errno strerror)) caminho = Some (OSError_de errno strerror caminho)"

fun percorrer :: "fs \<Rightarrow> pystr \<Rightarrow> bool \<Rightarrow> pystr list \<Rightarrow> pystr list \<Rightarrow> pyexn + pystr list" where
  "percorrer arqs caminho absoluto cur [] = Inr cur"
| "percorrer arqs caminho absoluto cur (c # cs) =
     (case entrar (no_em arqs absoluto cur) caminho of
        Some e \<Rightarrow> Inl e
      | None \<Rightarrow>
          if c = [] \<or> c = str ''.'' then percorrer arqs caminho absoluto cur cs
          else if c = str ''..'' then percorrer arqs caminho absoluto (subir absoluto cur) cs
          else if NAME_MAX < utf8_len c then Inl (ENAMETOOLONG caminho)
          else percorrer arqs caminho absoluto (cur @ [c]) cs)"

text \<open>
  What \<^verbatim>\<open>open\<close> finds at a path: an exception, or the key of the place and what is
  there (nothing, when the last component names nothing in an existing directory).
  The path is encoded first, then searched for a null character; the empty path names
  nothing; a path of \<open>PATH_MAX\<close> bytes or more is too long. Trailing slashes ask for a
  directory; with them, opening for creation (\<open>criar\<close>) is refused.
\<close>

definition resolver :: "fs \<Rightarrow> bool \<Rightarrow> pystr \<Rightarrow> pyexn + pystr \<times> node option" where
  "resolver arqs criar caminho =
     (case erro_codif True 0 caminho of
        Some (i, run) \<Rightarrow> Inl (UnicodeEncodeError_de i run)
      | None \<Rightarrow>
          if 0 \<in> set caminho then Inl (PyExn ValueError (str ''embedded null byte''))
          else if caminho = [] then Inl (ENOENT caminho)
          else if PATH_MAX \<le> utf8_len caminho then Inl (ENAMETOOLONG caminho)
          else
            (let absoluto = (take 1 caminho = [47]);
                 sem_barras = rev (dropWhile (\<lambda>c. c = 47) (rev caminho));
                 barra_final = (length sem_barras < length caminho)
             in if sem_barras = [] then Inr ([47], Some Diretorio)
                else
                  (let cs = componentes sem_barras in
                   case percorrer arqs caminho absoluto [] (butlast cs) of
                     Inl e \<Rightarrow> Inl e
                   | Inr cur \<Rightarrow>
                       (case entrar (no_em arqs absoluto cur) caminho of
                          Some e \<Rightarrow> Inl e
                        | None \<Rightarrow>
                            (let c = last cs in
                             if c = str ''.'' then Inr (chave absoluto cur, Some Diretorio)
                             else if c = str ''..'' then
                               Inr (chave absoluto (subir absoluto cur), Some Diretorio)
                             else if criar \<and> barra_final then Inl (EISDIR caminho)
                             else if NAME_MAX < utf8_len c then Inl (ENAMETOOLONG caminho)
                             else
                               (case arqs (chave absoluto (cur @ [c])) of
                                  Some (Arquivo utf8 texto) \<Rightarrow>
                                    if barra_final then Inl (ENOTDIR caminho)
                                    else Inr (chave absoluto (cur @ [c]),
                                              Some (Arquivo utf8 texto))
                                | n \<Rightarrow> Inr (chave absoluto (cur @ [c]), n)))))))"

text \<open>
  Reading in text mode with the default \<^verbatim>\<open>newline\<close>: the line endings CR LF and CR
  are read as LF.
\<close>

fun universal_newlines :: "pystr \<Rightarrow> pystr" where
  "universal_newlines [] = []"
| "universal_newlines (c # cs) =
     (if c = 13 then
        (case cs of
           [] \<Rightarrow> [10]
         | d # ds \<Rightarrow>
             if d = 10 then 10 # universal_newlines ds else 10 # universal_newlines cs)
      else c # universal_newlines cs)"

text \<open>
  \<^verbatim>\<open>open(caminho, "r", encoding="utf-8")\<close> followed by \<^verbatim>\<open>f.read()\<close>. The text of the decode
  error depends on the bytes, which the model does not hold; it is shortened.
\<close>

definition open_r_read :: "fs \<Rightarrow> pystr \<Rightarrow> pyexn + pystr" where
  "open_r_read arqs caminho =
     (case resolver arqs False caminho of
        Inl e \<Rightarrow> Inl e
      | Inr (k, n) \<Rightarrow>
          (case n of
             None \<Rightarrow> Inl (ENOENT caminho)
           | Some (Arquivo utf8 texto) \<Rightarrow>
               if utf8 then Inr (universal_newlines texto)
               else Inl (PyExn UnicodeDecodeError (str ''utf-8 codec can not decode byte''))
           | Some Diretorio \<Rightarrow> Inl (EISDIR caminho)
           | Some SemPermissao \<Rightarrow> Inl (EACCES caminho)
           | Some (ErroOS errno strerror) \<Rightarrow> Inl (OSError_de errno strerror caminho)))"

text \<open>
  \<^verbatim>\<open>f.write(s)\<close> on a file opened for appending, whose key and present state are given:
  the text is encoded as a whole before any of it is written, so that a text with a
  surrogate raises and leaves the file as it is. On Linux the newline is written as
  it is. A failure of the write itself (a full disk) is not modelled.
\<close>

definition escrever :: "fs \<Rightarrow> pystr \<Rightarrow> bool \<Rightarrow> pystr \<Rightarrow> pystr \<Rightarrow> pyexn option \<times> fs" where
  "escrever arqs k utf8 texto s =
     (case erro_codif False 0 s of
        Some (i, run) \<Rightarrow> (Some (UnicodeEncodeError_de i run), arqs(k \<mapsto> Arquivo utf8 texto))
      | None \<Rightarrow> (None, arqs(k \<mapsto> Arquivo utf8 (texto @ s))))"

text \<open>
  \<^verbatim>\<open>open(caminho, "a", encoding="utf-8")\<close> followed by \<^verbatim>\<open>f.write(s)\<close>: append mode creates
  the file, empty, when the path names nothing, and writes at the end of the file. The
  result is the exception raised, if any, and the files as they are left.
\<close>

definition open_a_write :: "fs \<Rightarrow> pystr \<Rightarrow> pystr \<Rightarrow> pyexn option \<times> fs" where
  "open_a_write arqs caminho s =
     (case resolver arqs True caminho of
        Inl e \<Rightarrow> (Some e, arqs)
      | Inr (k, n) \<Rightarrow>
          (case n of
             None \<Rightarrow> escrever arqs k True [] s
           | Some (Arquivo utf8 texto) \<Rightarrow> escrever arqs k utf8 texto s
           | Some Diretorio \<Rightarrow> (Some (EISDIR caminho), arqs)
           | Some SemPermissao \<Rightarrow> (Some (EACCES caminho), arqs)
           | Some (ErroOS errno strerror) \<Rightarrow> (Some (OSError_de errno strerror caminho), arqs)))"

text \<open>The text of a file; a path that names no regular file has none.\<close>

fun conteudo :: "node option \<Rightarrow> pystr" where
  "conteudo (Some (Arquivo utf8 texto)) = texto"
| "conteudo (Some Diretorio) = []"
| "conteudo (Some SemPermissao) = []"
| "conteudo (Some (ErroOS errno strerror)) = []"
| "conteudo None = []"

text \<open>
  A plain file name: one component that is neither empty nor a dot name, with no null
  character, no slash and no surrogate, of at most \<open>NAME_MAX\<close> bytes.
\<close>

definition nome_simples :: "pystr \<Rightarrow> bool" where
  "nome_simples caminho =
     (caminho \<noteq> [] \<and> caminho \<noteq> str ''.'' \<and> caminho \<noteq> str ''..''
      \<and> list_all (\<lambda>c. c \<noteq> 0 \<and> c \<noteq> 47 \<and> \<not> surrogate c) caminho
      \<and> utf8_len caminho \<le> NAME_MAX)"

text \<open>The number of lines of a text: the number of newline characters in it.\<close>

definition linhas :: "pystr \<Rightarrow> nat" where
  "linhas s = length (filter (\<lambda>c. c = 10) s)"

section \<open>The chat session\<close>

text \<open>
  The session of the external API is opaque. It is modelled as a test double: \<open>remoto\<close>
  is what the service answers to a prompt, given the prompts submitted before (an
  exception, or the text of the reply; reading \<^verbatim>\<open>.text\<close> of a reply without text raises
  too), and \<open>enviados\<close> records every prompt submitted through \<^verbatim>\<open>send_message\<close>.
\<close>

record ChatSession =
  remoto :: "pystr list \<Rightarrow> pystr \<Rightarrow> pyexn + pystr"
  enviados :: "pystr list"

definition send_message :: "ChatSession \<Rightarrow> pystr \<Rightarrow> (pyexn + pystr) \<times> ChatSession" where
  "send_message c prompt = (remoto c (enviados c) prompt, c\<lparr>enviados := enviados c @ [prompt]\<rparr>)"

definition responder_com_gemini ::
  "ChatSession \<Rightarrow> pystr \<Rightarrow> pystr \<Rightarrow> (pyexn + pystr) \<times> ChatSession" where
  "responder_com_gemini c base pergunta_usuario =
     (case formatar None PROMPT_TEMPLATE
             [(str ''base_conhecimento'', base), (str ''pergunta_usuario'', pergunta_usuario)] of
        Inl e \<Rightarrow> (Inl e, c)
      | Inr prompt \<Rightarrow>
          (case send_message c prompt of
             (Inl e, c') \<Rightarrow> (Inl e, c')
           | (Inr texto, c') \<Rightarrow> (Inr (strip texto), c')))"

section \<open>The process state\<close>

text \<open>
  The two globals set at startup, the files, and the records written by \<^verbatim>\<open>logging\<close>.
\<close>

datatype nivel = INFO | WARNING | ERROR

record mundo =
  base_conhecimento :: "pystr option"
  chat_session :: "ChatSession option"
  arquivos :: fs
  registros :: "(nivel \<times> pystr) list"

definition logging :: "nivel \<Rightarrow> pystr \<Rightarrow> mundo \<Rightarrow> mundo" where
  "logging n msg w = w\<lparr>registros := registros w @ [(n, msg)]\<rparr>"

section \<open>Startup\<close>

text \<open>
  \<^verbatim>\<open>carregar_conhecimento\<close>: only \<^verbatim>\<open>FileNotFoundError\<close> is caught; any other exception of
  \<^verbatim>\<open>open\<close> or \<^verbatim>\<open>read\<close> leaves the function (\<open>Inl\<close>).
\<close>

definition carregar_conhecimento :: "pystr \<Rightarrow> mundo \<Rightarrow> (pyexn + pystr option) \<times> mundo" where
  "carregar_conhecimento caminho w =
     (case open_r_read (arquivos w) caminho of
        Inr texto \<Rightarrow> (Inr (Some texto), w)
      | Inl e \<Rightarrow>
          if exc_class e = FileNotFoundError then
            (Inr None,
             logging ERROR
               ([10060] @ str '' ERRO: Arquivo da base de conhecimento n'' @ [227]
                @ str ''o encontrado em '' @ [39] @ caminho @ [39] @ str ''.'') w)
          else (Inl e, w))"

text \<open>
  \<^verbatim>\<open>iniciar_gemini\<close>: \<open>getenv\<close> is the process environment, \<open>genai\<close> stands for the three
  calls of the client library (configure, build the model, start the chat) on the key.
  \<^verbatim>\<open>not api_key\<close> holds for a missing key and for the empty string.
\<close>

definition iniciar_gemini ::
  "(pystr \<Rightarrow> pystr option) \<Rightarrow> (pystr \<Rightarrow> pyexn + ChatSession) \<Rightarrow> mundo
     \<Rightarrow> ChatSession option \<times> mundo" where
  "iniciar_gemini getenv genai w =
     (let sem_chave =
            (None,
             logging ERROR
               ([10060] @ str '' ERRO: API KEY da Gemini n'' @ [227]
                @ str ''o encontrada. Verifique suas vari'' @ [225] @ str ''veis de ambiente.'') w)
      in case getenv (str ''GEMINI_API_KEY'') of
           None \<Rightarrow> sem_chave
         | Some api_key \<Rightarrow>
             if api_key = [] then sem_chave
             else
               (case genai api_key of
                  Inr c \<Rightarrow> (Some c, w)
                | Inl e \<Rightarrow>
                    (None,
                     logging ERROR
                       ([10060] @ str '' ERRO: Falha ao iniciar o modelo Gemini: '' @ exc_str e) w)))"

text \<open>\<^verbatim>\<open>not x\<close> for an optional string: it is \<^verbatim>\<open>None\<close> or empty.\<close>

fun falsy_str :: "pystr option \<Rightarrow> bool" where
  "falsy_str None = True"
| "falsy_str (Some s) = (s = [])"

text \<open>
  \<^verbatim>\<open>startup_event\<close>. The result is the exception that leaves it, if any, and the state.
  A session object is always truthy: the class defines neither \<^verbatim>\<open>__bool__\<close> nor
  \<^verbatim>\<open>__len__\<close>.
\<close>

definition startup_event ::
  "(pystr \<Rightarrow> pystr option) \<Rightarrow> (pystr \<Rightarrow> pyexn + ChatSession) \<Rightarrow> mundo
     \<Rightarrow> pyexn option \<times> mundo" where
  "startup_event getenv genai w =
     (let w1 = logging INFO (str ''Iniciando o chatbot...'') w in
      case carregar_conhecimento KNOWLEDGE_BASE_FILE w1 of
        (Inl e, w2) \<Rightarrow> (Some e, w2)
      | (Inr base, w2) \<Rightarrow>
          (let w3 = w2\<lparr>base_conhecimento := base\<rparr> in
           case iniciar_gemini getenv genai w3 of
             (sess, w4) \<Rightarrow>
               (let w5 = w4\<lparr>chat_session := sess\<rparr> in
                if sess = None \<or> falsy_str base then
                  (None,
                   logging WARNING
                     (str ''[AVISO] O chatbot est'' @ [225]
                      @ str '' rodando em modo degradado. Verifique a API Key e o arquivo de dados.'')
                     w5)
                else
                  (None,
                   logging INFO ([9989] @ str '' Chatbot Gemini inicializado com sucesso!'') w5))))"

section \<open>Request validation\<close>

text \<open>
  The framework validates the JSON body against the declared model before it calls the
  handler. A field declared \<^verbatim>\<open>str\<close> takes a JSON string, whatever its length; a field
  that is missing or of another JSON type is rejected. \<^verbatim>\<open>EmailStr\<close> is the validator of
  an external library: it is a parameter, which gives the address as the model stores
  it, or nothing when it rejects the string. A key given twice keeps its last value.
\<close>

definition campo :: "(pystr \<times> json) list \<Rightarrow> string \<Rightarrow> json option" where
  "campo kvs k = map_of (rev kvs) (str k)"

fun campo_str :: "json option \<Rightarrow> pystr option" where
  "campo_str (Some (JStr s)) = Some s"
| "campo_str (Some JNull) = None"
| "campo_str (Some (JBool b)) = None"
| "campo_str (Some (JNum i)) = None"
| "campo_str (Some (JArr js)) = None"
| "campo_str (Some (JObj kvs)) = None"
| "campo_str None = None"

fun campos :: "json \<Rightarrow> (pystr \<times> json) list option" where
  "campos (JObj kvs) = Some kvs"
| "campos JNull = None"
| "campos (JBool b) = None"
| "campos (JNum i) = None"
| "campos (JStr s) = None"
| "campos (JArr js) = None"

definition validar_ChatRequest :: "json \<Rightarrow> ChatRequest option" where
  "validar_ChatRequest body =
     (case campos body of
        None \<Rightarrow> None
      | Some kvs \<Rightarrow>
          (case campo_str (campo kvs ''message'') of
             None \<Rightarrow> None
           | Some m \<Rightarrow> Some \<lparr>message = m\<rparr>))"

definition validar_Lead :: "(pystr \<Rightarrow> pystr option) \<Rightarrow> json \<Rightarrow> Lead option" where
  "validar_Lead EmailStr body =
     (case campos body of
        None \<Rightarrow> None
      | Some kvs \<Rightarrow>
          (case campo_str (campo kvs ''name'') of
             None \<Rightarrow> None
           | Some n \<Rightarrow>
               (case campo_str (campo kvs ''email'') of
                  None \<Rightarrow> None
                | Some e \<Rightarrow>
                    (case EmailStr e of
                       None \<Rightarrow> None
                     | Some e' \<Rightarrow> Some \<lparr>name = n, email = e'\<rparr>))))"

section \<open>Endpoints\<close>

definition read_root :: http_result where
  "read_root =
     Retorno (JObj [(str ''status'', JStr (str ''API do Chatbot est'' @ [225] @ str '' funcionando!''))])"

text \<open>The line written for a lead.\<close>

definition linha_lead :: "Lead \<Rightarrow> pystr" where
  "linha_lead lead = str ''Nome: '' @ name lead @ str '', Email: '' @ email lead @ [10]"

definition capturar_lead :: "Lead \<Rightarrow> mundo \<Rightarrow> http_result \<times> mundo" where
  "capturar_lead lead w =
     (let w1 = logging INFO
                 ([9989] @ str '' Novo lead recebido: Nome='' @ [39] @ name lead @ [39]
                  @ str '', Email='' @ [39] @ email lead @ [39]) w
      in case open_a_write (arquivos w1) LEADS_FILE (linha_lead lead) of
           (None, arqs) \<Rightarrow>
             (Retorno (JObj [(str ''status'', JStr (str ''success'')),
                             (str ''message'', JStr (str ''Lead recebido com sucesso!''))]),
              w1\<lparr>arquivos := arqs\<rparr>)
         | (Some e, arqs) \<Rightarrow>
             (HTTPException 500 (str ''Falha ao salvar o lead.''),
              logging ERROR ([10060] @ str '' ERRO ao salvar lead: '' @ exc_str e)
                (w1\<lparr>arquivos := arqs\<rparr>)))"

definition post_leads :: "(pystr \<Rightarrow> pystr option) \<Rightarrow> json \<Rightarrow> mundo \<Rightarrow> http_result \<times> mundo" where
  "post_leads EmailStr body w =
     (case validar_Lead EmailStr body of
        None \<Rightarrow> (RequestValidationError, w)
      | Some lead \<Rightarrow> capturar_lead lead w)"

definition DETALHE_503 :: pystr where
  "DETALHE_503 =
     str ''Desculpe, o chatbot n'' @ [227] @ str ''o est'' @ [225] @ str '' dispon'' @ [237]
     @ str ''vel no momento.''"

definition DETALHE_400 :: pystr where
  "DETALHE_400 = str ''A mensagem n'' @ [227] @ str ''o pode ser vazia.''"

definition DETALHE_500 :: pystr where
  "DETALHE_500 = str ''Ocorreu um erro ao processar sua mensagem.''"

text \<open>
  \<^verbatim>\<open>chat\<close>. The first test is \<^verbatim>\<open>not chat_session or not base_conhecimento\<close>: the session is
  missing, or the knowledge is missing or the empty string. The session object is
  shared and changed in place by the call; the state holds it after the call.
\<close>

definition chat :: "ChatRequest \<Rightarrow> mundo \<Rightarrow> http_result \<times> mundo" where
  "chat chat_request w =
     (case chat_session w of
        None \<Rightarrow> (HTTPException 503 DETALHE_503, w)
      | Some sess \<Rightarrow>
          (case base_conhecimento w of
             None \<Rightarrow> (HTTPException 503 DETALHE_503, w)
           | Some base \<Rightarrow>
               if base = [] then (HTTPException 503 DETALHE_503, w)
               else
                 (let user_message = message chat_request in
                  if user_message = [] then (HTTPException 400 DETALHE_400, w)
                  else
                    (case responder_com_gemini sess base user_message of
                       (Inr bot_response, sess') \<Rightarrow>
                         (Retorno (JObj [(str ''response'', JStr bot_response)]),
                          w\<lparr>chat_session := Some sess'\<rparr>)
                     | (Inl e, sess') \<Rightarrow>
                         (HTTPException 500 DETALHE_500,
                          logging ERROR (str ''Erro ao gerar resposta do Gemini: '' @ exc_str e)
                            (w\<lparr>chat_session := Some sess'\<rparr>))))))"

definition post_chat :: "json \<Rightarrow> mundo \<Rightarrow> http_result \<times> mundo" where
  "post_chat body w =
     (case validar_ChatRequest body of
        None \<Rightarrow> (RequestValidationError, w)
      | Some chat_request \<Rightarrow> chat chat_request w)"

section \<open>Example states\<close>

text \<open>
  Concrete sessions, states and requests, on which the theorems below are run. The
  first session answers every prompt with the same text, padded with whitespace; the
  second raises on every prompt.
\<close>

definition sessao_exemplo :: ChatSession where
  "sessao_exemplo =
     \<lparr>remoto = (\<lambda>h p. Inr ([32, 10] @ str ''Oi, tudo bem?'' @ [32, 10])), enviados = []\<rparr>"

definition excecao_exemplo :: pyexn where
  "excecao_exemplo = PyExn (OtherException (str ''ResourceExhausted'')) (str ''429 quota exceeded'')"

definition sessao_falha :: ChatSession where
  "sessao_falha = \<lparr>remoto = (\<lambda>h p. Inl excecao_exemplo), enviados = []\<rparr>"

definition mundo_exemplo :: mundo where
  "mundo_exemplo =
     \<lparr>base_conhecimento = Some (str ''K''), chat_session = Some sessao_exemplo,
      arquivos = Map.empty, registros = []\<rparr>"

definition mundo_falha :: mundo where
  "mundo_falha = mundo_exemplo\<lparr>chat_session := Some sessao_falha\<rparr>"

definition mundo_base_vazia :: mundo where
  "mundo_base_vazia = mundo_exemplo\<lparr>base_conhecimento := Some []\<rparr>"

definition mundo_sem_base :: mundo where
  "mundo_sem_base = mundo_exemplo\<lparr>base_conhecimento := None\<rparr>"

definition mundo_sem_permissao :: mundo where
  "mundo_sem_permissao = mundo_exemplo\<lparr>arquivos := [KNOWLEDGE_BASE_FILE \<mapsto> SemPermissao]\<rparr>"

definition mundo_com_dados :: mundo where
  "mundo_com_dados =
     \<lparr>base_conhecimento = None, chat_session = None,
      arquivos = [KNOWLEDGE_BASE_FILE \<mapsto>
                    Arquivo True (str ''A'' @ [13, 10] @ str ''B'' @ [13] @ str ''C'' @ [10])],
      registros = []\<rparr>"

definition mundo_arquivo_vazio :: mundo where
  "mundo_arquivo_vazio =
     \<lparr>base_conhecimento = None, chat_session = None,
      arquivos = [KNOWLEDGE_BASE_FILE \<mapsto> Arquivo True []], registros = []\<rparr>"

definition getenv_exemplo :: "pystr \<Rightarrow> pystr option" where
  "getenv_exemplo = [str ''GEMINI_API_KEY'' \<mapsto> str ''chave'']"

definition genai_exemplo :: "pystr \<Rightarrow> pyexn + ChatSession" where
  "genai_exemplo = (\<lambda>api_key. Inr sessao_exemplo)"

text \<open>
  A stand-in for \<^verbatim>\<open>EmailStr\<close> that accepts the address of the specification's example,
  unchanged, and nothing else.
\<close>

definition EmailStr_exemplo :: "pystr \<Rightarrow> pystr option" where
  "EmailStr_exemplo = (\<lambda>e. if e = str ''ana@example.com'' then Some e else None)"

definition lead_ana :: Lead where
  "lead_ana = \<lparr>name = str ''Ana'', email = str ''ana@example.com''\<rparr>"

definition lead_duas_linhas :: Lead where
  "lead_duas_linhas = \<lparr>name = str ''Ana'' @ [10] @ str ''Maria'', email = str ''ana@example.com''\<rparr>"

section \<open>Plain file names\<close>

text \<open>
  For a plain file name, as the two file names of the program are, resolution is the
  lookup of the name in the table.
\<close>

lemma erro_codif_None:
  "list_all (\<lambda>c. \<not> surrogate c) p \<Longrightarrow> erro_codif esc i p = None"
  by (induction p arbitrary: i) simp_all

lemma componentes_aux_sem_barra:
  "47 \<notin> set p \<Longrightarrow> componentes_aux acc p = [rev acc @ p]"
  by (induction p arbitrary: acc) simp_all

lemma sem_barra_final:
  "p \<noteq> [] \<Longrightarrow> 47 \<notin> set p \<Longrightarrow> rev (dropWhile (\<lambda>c. c = 47) (rev p)) = p"
  by (cases p rule: rev_cases) simp_all

lemma nome_simples_partes:
  assumes "nome_simples p"
  shows "p \<noteq> []" and "p \<noteq> str ''.''" and "p \<noteq> str ''..''" and "0 \<notin> set p" and "47 \<notin> set p"
    and "list_all (\<lambda>c. \<not> surrogate c) p" and "utf8_len p \<le> NAME_MAX"
  using assms by (auto simp: nome_simples_def list_all_iff)

lemma resolver_simples:
  assumes "nome_simples p"
  shows "resolver arqs criar p = Inr (p, arqs p)"
proof -
  note n = nome_simples_partes [OF assms]
  have 1: "erro_codif True 0 p = None"
    by (rule erro_codif_None) (rule n)
  have 2: "\<not> PATH_MAX \<le> utf8_len p"
    using n(7) by (simp add: NAME_MAX_def PATH_MAX_def)
  have 3: "take (Suc 0) p \<noteq> [47]"
    using n(1,5) by (cases p) auto
  have 4: "rev (dropWhile (\<lambda>c. c = 47) (rev p)) = p"
    using n(1,5) by (rule sem_barra_final)
  have 5: "componentes p = [p]"
    using n(5) by (simp add: componentes_def componentes_aux_sem_barra)
  have 6: "\<not> NAME_MAX < utf8_len p"
    using n(7) by simp
  show ?thesis
    using n(1,2,3,4)
    by (simp add: resolver_def 1 2 3 4 5 6 no_em_def chave_def Let_def
        split: option.splits node.splits)
qed

lemma open_r_read_simples:
  assumes "nome_simples p"
  shows "open_r_read arqs p =
     (case arqs p of
        None \<Rightarrow> Inl (ENOENT p)
      | Some (Arquivo utf8 texto) \<Rightarrow>
          if utf8 then Inr (universal_newlines texto)
          else Inl (PyExn UnicodeDecodeError (str ''utf-8 codec can not decode byte''))
      | Some Diretorio \<Rightarrow> Inl (EISDIR p)
      | Some SemPermissao \<Rightarrow> Inl (EACCES p)
      | Some (ErroOS errno strerror) \<Rightarrow> Inl (OSError_de errno strerror p))"
  by (simp add: open_r_read_def resolver_simples [OF assms])

lemma open_a_write_simples:
  assumes "nome_simples p"
  shows "open_a_write arqs p s =
     (case arqs p of
        None \<Rightarrow> escrever arqs p True [] s
      | Some (Arquivo utf8 texto) \<Rightarrow> escrever arqs p utf8 texto s
      | Some Diretorio \<Rightarrow> (Some (EISDIR p), arqs)
      | Some SemPermissao \<Rightarrow> (Some (EACCES p), arqs)
      | Some (ErroOS errno strerror) \<Rightarrow> (Some (OSError_de errno strerror p), arqs))"
  by (simp add: open_a_write_def resolver_simples [OF assms])

lemma nome_simples_KNOWLEDGE_BASE_FILE: "nome_simples KNOWLEDGE_BASE_FILE"
  by (simp add: nome_simples_def KNOWLEDGE_BASE_FILE_def str_def surrogate_def utf8_len_def
      surrogateescape_def utf8_bytes_def NAME_MAX_def)

lemma nome_simples_LEADS_FILE: "nome_simples LEADS_FILE"
  by (simp add: nome_simples_def LEADS_FILE_def str_def surrogate_def utf8_len_def
      surrogateescape_def utf8_bytes_def NAME_MAX_def)

lemma classe_ENOENT: "exc_class (ENOENT p) = FileNotFoundError"
  by (simp add: ENOENT_def OSError_de_def classe_errno_def)

lemma classe_outros:
  "exc_class (EISDIR p) = IsADirectoryError" "exc_class (EACCES p) = PermissionError"
  "exc_class (ENOTDIR p) = NotADirectoryError" "exc_class (ENAMETOOLONG p) = OSError"
  by (simp_all add: EISDIR_def EACCES_def ENOTDIR_def ENAMETOOLONG_def OSError_de_def
      classe_errno_def)

lemma universal_newlines_id: "13 \<notin> set s \<Longrightarrow> universal_newlines s = s"
  by (induction s) simp_all

lemma resolver_nul:
  "0 \<in> set p \<Longrightarrow> \<exists>e. resolver arqs criar p = Inl e
     \<and> (exc_class e = ValueError \<or> exc_class e = UnicodeEncodeError)"
  by (auto simp: resolver_def UnicodeEncodeError_de_def split: option.splits)

section \<open>Prompt composition\<close>

lemma formatar_PROMPT_TEMPLATE:
  "formatar None PROMPT_TEMPLATE
     [(str ''base_conhecimento'', K), (str ''pergunta_usuario'', Q)]
   = Inr (prompt_antes @ K @ prompt_meio @ Q @ prompt_depois)"
  by (simp add: PROMPT_TEMPLATE_def prompt_antes_def prompt_meio_def prompt_depois_def str_def)

lemma responder_com_gemini_eq:
  "responder_com_gemini c K Q =
     (case remoto c (enviados c) (prompt_antes @ K @ prompt_meio @ Q @ prompt_depois) of
        Inl e \<Rightarrow> Inl e
      | Inr texto \<Rightarrow> Inr (strip texto),
      c\<lparr>enviados := enviados c @ [prompt_antes @ K @ prompt_meio @ Q @ prompt_depois]\<rparr>)"
  by (simp add: responder_com_gemini_def formatar_PROMPT_TEMPLATE send_message_def
      split: sum.splits)

subsection \<open>Trimming\<close>

text \<open>
  \<open>strip\<close> removes whitespace and nothing else, and what is left neither begins nor
  ends with whitespace.
\<close>

lemma rev_dropWhile_takeWhile:
  "rev (dropWhile P (rev xs)) @ rev (takeWhile P (rev xs)) = xs"
proof -
  have "rev (takeWhile P (rev xs) @ dropWhile P (rev xs)) = xs"
    by (simp only: takeWhile_dropWhile_id rev_rev_ident)
  then show ?thesis by (simp only: rev_append)
qed

lemma strip_decomp:
  "\<exists>a b. s = a @ strip s @ b \<and> (\<forall>c \<in> set a. isspace c) \<and> (\<forall>c \<in> set b. isspace c)"
proof -
  let ?d = "dropWhile isspace s"
  have 1: "s = takeWhile isspace s @ ?d" by simp
  have 2: "?d = strip s @ rev (takeWhile isspace (rev ?d))"
    by (simp only: strip_def rev_dropWhile_takeWhile)
  have 3: "\<forall>c \<in> set (takeWhile isspace s). isspace c"
    by (auto dest: set_takeWhileD)
  have 4: "\<forall>c \<in> set (rev (takeWhile isspace (rev ?d))). isspace c"
    by (auto dest: set_takeWhileD)
  from 1 2 have "s = takeWhile isspace s @ strip s @ rev (takeWhile isspace (rev ?d))"
    by simp
  with 3 4 show ?thesis by blast
qed

lemma strip_ends:
  assumes "strip s \<noteq> []"
  shows "\<not> isspace (hd (strip s))" and "\<not> isspace (last (strip s))"
proof -
  let ?d = "dropWhile isspace s"
  have e: "dropWhile isspace (rev ?d) \<noteq> []"
    using assms by (simp add: strip_def)
  then show "\<not> isspace (last (strip s))"
    by (simp add: strip_def last_rev hd_dropWhile)
  have "?d = strip s @ rev (takeWhile isspace (rev ?d))"
    by (simp only: strip_def rev_dropWhile_takeWhile)
  then have "hd ?d = hd (strip s)" and "?d \<noteq> []"
    using assms by (metis hd_append2, metis append_is_Nil_conv)
  then show "\<not> isspace (hd (strip s))"
    by (metis hd_dropWhile)
qed

text \<open>
  Claim C4. Prompt composition is a function of the knowledge and of the question
  only: for every knowledge string \<open>K\<close> and question \<open>Q\<close>, formatting the template
  succeeds and gives the fixed text before, \<open>K\<close> as it is, the fixed text between, \<open>Q\<close>
  as it is, and the fixed text after (nothing escaped, shortened or cut), and this
  string is the one prompt that \<^verbatim>\<open>responder_com_gemini\<close> submits to the session.
\<close>

theorem prompt_contem_base_e_pergunta:
  "formatar None PROMPT_TEMPLATE
      [(str ''base_conhecimento'', K), (str ''pergunta_usuario'', Q)]
     = Inr (prompt_antes @ K @ prompt_meio @ Q @ prompt_depois)
   \<and> enviados (snd (responder_com_gemini c K Q))
     = enviados c @ [prompt_antes @ K @ prompt_meio @ Q @ prompt_depois]"
  by (simp add: formatar_PROMPT_TEMPLATE responder_com_gemini_eq)

section \<open>The chat endpoint\<close>

text \<open>
  Claim C2. For every chat request, if the session or the knowledge is absent, the
  handler answers 503 and leaves the whole state as it was, so that no prompt has been
  submitted to the session; the message plays no part, so the test comes before the
  test of the empty message, and no request is served with one of the two missing.
\<close>

theorem chat_503_indisponivel:
  assumes "chat_session w = None \<or> base_conhecimento w = None"
  shows "chat req w = (HTTPException 503 DETALHE_503, w)
         \<and> status_code (fst (chat req w)) = 503"
  using assms by (auto simp: chat_def split: option.splits)

theorem chat_503_indisponivel_witness:
  "(chat_session mundo_sem_base = None \<or> base_conhecimento mundo_sem_base = None)
   \<and> chat \<lparr>message = []\<rparr> mundo_sem_base = (HTTPException 503 DETALHE_503, mundo_sem_base)
   \<and> status_code (fst (chat \<lparr>message = []\<rparr> mundo_sem_base)) = 503"
proof -
  have h: "chat_session mundo_sem_base = None \<or> base_conhecimento mundo_sem_base = None"
    by (simp add: mundo_sem_base_def)
  from chat_503_indisponivel [OF h, of "\<lparr>message = []\<rparr>"] h show ?thesis by simp
qed

text \<open>
  Claim C7. For every chat request whose message is the empty string, when the service
  is available (the session is there and the knowledge is a non-empty string), the
  handler answers 400 and leaves the state as it was: the session has not been called.
\<close>

theorem chat_400_mensagem_vazia:
  assumes "chat_session w = Some sess" and "base_conhecimento w = Some base" and "base \<noteq> []"
    and "message req = []"
  shows "chat req w = (HTTPException 400 DETALHE_400, w)"
  using assms by (simp add: chat_def)

theorem chat_400_mensagem_vazia_witness:
  "chat \<lparr>message = []\<rparr> mundo_exemplo = (HTTPException 400 DETALHE_400, mundo_exemplo)
   \<and> chat_session mundo_exemplo = Some sessao_exemplo \<and> enviados sessao_exemplo = []"
proof -
  have h1: "chat_session mundo_exemplo = Some sessao_exemplo"
    and h2: "base_conhecimento mundo_exemplo = Some (str ''K'')"
    by (simp_all add: mundo_exemplo_def)
  have h3: "str ''K'' \<noteq> []"
    by (simp add: str_def)
  have h4: "message \<lparr>message = []\<rparr> = []"
    by simp
  from chat_400_mensagem_vazia [OF h1 h2 h3 h4] h1 show ?thesis
    by (simp add: sessao_exemplo_def)
qed

text \<open>
  Claim C1, as the code has it. For every chat request with a non-empty message, when
  the session is there, the knowledge is a non-empty string and the session returns a
  text for the composed prompt, the handler returns (status 200) the dictionary with
  the one field \<^verbatim>\<open>response\<close>, whose value is that text without its leading and trailing
  whitespace; the session has received that one prompt more.
\<close>

theorem chat_200_resposta_aparada:
  assumes "chat_session w = Some sess" and "base_conhecimento w = Some base" and "base \<noteq> []"
    and "message req \<noteq> []"
    and "remoto sess (enviados sess)
           (prompt_antes @ base @ prompt_meio @ message req @ prompt_depois) = Inr texto"
  shows "chat req w =
           (Retorno (JObj [(str ''response'', JStr (strip texto))]),
            w\<lparr>chat_session := Some (sess\<lparr>enviados := enviados sess @
                 [prompt_antes @ base @ prompt_meio @ message req @ prompt_depois]\<rparr>)\<rparr>)
         \<and> status_code (fst (chat req w)) = 200"
  using assms by (simp add: chat_def responder_com_gemini_eq)

theorem chat_200_resposta_aparada_witness:
  "chat \<lparr>message = str ''Q''\<rparr> mundo_exemplo =
     (Retorno (JObj [(str ''response'', JStr (str ''Oi, tudo bem?''))]),
      mundo_exemplo\<lparr>chat_session := Some (sessao_exemplo\<lparr>enviados :=
        [prompt_antes @ str ''K'' @ prompt_meio @ str ''Q'' @ prompt_depois]\<rparr>)\<rparr>)"
proof -
  have h1: "chat_session mundo_exemplo = Some sessao_exemplo"
    and h2: "base_conhecimento mundo_exemplo = Some (str ''K'')"
    by (simp_all add: mundo_exemplo_def)
  have h3: "str ''K'' \<noteq> []" and h4: "message \<lparr>message = str ''Q''\<rparr> \<noteq> []"
    by (simp_all add: str_def)
  have h5: "remoto sessao_exemplo (enviados sessao_exemplo)
      (prompt_antes @ str ''K'' @ prompt_meio @ message \<lparr>message = str ''Q''\<rparr> @ prompt_depois)
      = Inr ([32, 10] @ str ''Oi, tudo bem?'' @ [32, 10])"
    by (simp add: sessao_exemplo_def)
  have s: "strip ([32, 10] @ str ''Oi, tudo bem?'' @ [32, 10]) = str ''Oi, tudo bem?''"
    by (simp add: strip_def isspace_def str_def)
  have e: "enviados sessao_exemplo = []"
    by (simp add: sessao_exemplo_def)
  from chat_200_resposta_aparada [OF h1 h2 h3 h4 h5] show ?thesis
    unfolding s e by simp
qed

text \<open>
  Claim C1 as it is worded promises 200 to every well-formed request once the session
  and the knowledge are present. With both present and a session that would answer,
  the request with the empty message gets 400; and with a knowledge that is present but
  empty, a request with a message gets 503.
\<close>

theorem chat_200_resposta_aparada_counterexample:
  "chat_session mundo_exemplo = Some sessao_exemplo
   \<and> base_conhecimento mundo_exemplo = Some (str ''K'')
   \<and> status_code (fst (chat \<lparr>message = []\<rparr> mundo_exemplo)) = 400
   \<and> chat_session mundo_base_vazia = Some sessao_exemplo
   \<and> base_conhecimento mundo_base_vazia = Some []
   \<and> status_code (fst (chat \<lparr>message = str ''Q''\<rparr> mundo_base_vazia)) = 503"
  by (simp add: chat_def mundo_exemplo_def mundo_base_vazia_def str_def)

text \<open>
  Claim C8. For every exception that the call of the session raises during a chat
  request (service available, message not empty), the handler catches it, writes one
  error record that carries the exception's text, and raises the \<^verbatim>\<open>HTTPException\<close> with
  status 500 and a fixed detail: the exception does not occur in the answer, which is
  the same for every exception.
\<close>

theorem chat_500_generico:
  assumes "chat_session w = Some sess" and "base_conhecimento w = Some base" and "base \<noteq> []"
    and "message req \<noteq> []"
    and "remoto sess (enviados sess)
           (prompt_antes @ base @ prompt_meio @ message req @ prompt_depois) = Inl e"
  shows "chat req w =
           (HTTPException 500 DETALHE_500,
            logging ERROR (str ''Erro ao gerar resposta do Gemini: '' @ exc_str e)
              (w\<lparr>chat_session := Some (sess\<lparr>enviados := enviados sess @
                 [prompt_antes @ base @ prompt_meio @ message req @ prompt_depois]\<rparr>)\<rparr>))"
  using assms by (simp add: chat_def responder_com_gemini_eq)

theorem chat_500_generico_witness:
  "fst (chat \<lparr>message = str ''Q''\<rparr> mundo_falha)
     = HTTPException 500 (str ''Ocorreu um erro ao processar sua mensagem.'')
   \<and> registros (snd (chat \<lparr>message = str ''Q''\<rparr> mundo_falha))
     = [(ERROR, str ''Erro ao gerar resposta do Gemini: 429 quota exceeded'')]"
proof -
  have h1: "chat_session mundo_falha = Some sessao_falha"
    and h2: "base_conhecimento mundo_falha = Some (str ''K'')"
    by (simp_all add: mundo_falha_def mundo_exemplo_def)
  have h3: "str ''K'' \<noteq> []" and h4: "message \<lparr>message = str ''Q''\<rparr> \<noteq> []"
    by (simp_all add: str_def)
  have h5: "remoto sessao_falha (enviados sessao_falha)
      (prompt_antes @ str ''K'' @ prompt_meio @ message \<lparr>message = str ''Q''\<rparr> @ prompt_depois)
      = Inl excecao_exemplo"
    by (simp add: sessao_falha_def)
  have r: "registros mundo_falha = []"
    by (simp add: mundo_falha_def mundo_exemplo_def)
  from chat_500_generico [OF h1 h2 h3 h4 h5] r show ?thesis
    by (simp add: logging_def DETALHE_500_def excecao_exemplo_def str_def)
qed

text \<open>
  Claim C10. For every chat request whose message is not empty and holds whitespace
  only, when the service is available, the answer is not the 400 of the empty message:
  the message goes into the prompt as it is, and the prompt is submitted to the session.
\<close>

theorem chat_espacos_encaminhados:
  assumes "chat_session w = Some sess" and "base_conhecimento w = Some base" and "base \<noteq> []"
    and "message req \<noteq> []" and "\<forall>c \<in> set (message req). isspace c"
  shows "status_code (fst (chat req w)) \<noteq> 400
         \<and> chat_session (snd (chat req w)) =
             Some (sess\<lparr>enviados := enviados sess @
               [prompt_antes @ base @ prompt_meio @ message req @ prompt_depois]\<rparr>)"
  using assms
  by (cases "remoto sess (enviados sess)
        (prompt_antes @ base @ prompt_meio @ message req @ prompt_depois)")
     (simp_all add: chat_def responder_com_gemini_eq logging_def)

theorem chat_espacos_encaminhados_witness:
  "status_code (fst (chat \<lparr>message = [32]\<rparr> mundo_exemplo)) = 200
   \<and> chat_session (snd (chat \<lparr>message = [32]\<rparr> mundo_exemplo)) =
       Some (sessao_exemplo\<lparr>enviados :=
         [prompt_antes @ str ''K'' @ prompt_meio @ [32] @ prompt_depois]\<rparr>)"
proof -
  have h1: "chat_session mundo_exemplo = Some sessao_exemplo"
    and h2: "base_conhecimento mundo_exemplo = Some (str ''K'')"
    by (simp_all add: mundo_exemplo_def)
  have h3: "str ''K'' \<noteq> []" and h4: "message \<lparr>message = [32]\<rparr> \<noteq> []"
    by (simp_all add: str_def)
  have h5: "\<forall>c \<in> set (message \<lparr>message = [32]\<rparr>). isspace c"
    by (simp add: isspace_def)
  have e: "enviados sessao_exemplo = []"
    by (simp add: sessao_exemplo_def)
  have st: "status_code (fst (chat \<lparr>message = [32]\<rparr> mundo_exemplo)) = 200"
    by (simp add: chat_def responder_com_gemini_eq mundo_exemplo_def sessao_exemplo_def str_def)
  from chat_espacos_encaminhados [OF h1 h2 h3 h4 h5] e st show ?thesis
    by simp
qed

section \<open>Startup and the knowledge file\<close>

lemma startup_base:
  "arquivos w KNOWLEDGE_BASE_FILE = Some (Arquivo True texto) \<Longrightarrow>
   fst (startup_event getenv genai w) = None
   \<and> base_conhecimento (snd (startup_event getenv genai w)) = Some (universal_newlines texto)"
  by (auto simp: startup_event_def carregar_conhecimento_def
      open_r_read_simples [OF nome_simples_KNOWLEDGE_BASE_FILE] logging_def
      iniciar_gemini_def Let_def split: option.splits sum.splits prod.splits)

lemma startup_sem_base:
  "arquivos w KNOWLEDGE_BASE_FILE = None \<Longrightarrow>
   fst (startup_event getenv genai w) = None
   \<and> base_conhecimento (snd (startup_event getenv genai w)) = None"
  by (auto simp: startup_event_def carregar_conhecimento_def classe_ENOENT
      open_r_read_simples [OF nome_simples_KNOWLEDGE_BASE_FILE] logging_def
      iniciar_gemini_def Let_def split: option.splits sum.splits prod.splits)

lemma chat_503_falsy:
  "falsy_str (base_conhecimento w) \<Longrightarrow> chat req w = (HTTPException 503 DETALHE_503, w)"
  by (cases "base_conhecimento w") (auto simp: chat_def split: option.splits)

text \<open>
  Claim C9. If the knowledge file exists and its content is the empty string, startup
  succeeds and stores the empty string, and every chat request after it is refused with
  503 and no call of the session, with the very answer it gets when startup ran
  without the file.
\<close>

theorem chat_503_base_vazia:
  assumes "arquivos w KNOWLEDGE_BASE_FILE = Some (Arquivo True [])"
  shows "fst (startup_event getenv genai w) = None
     \<and> base_conhecimento (snd (startup_event getenv genai w)) = Some []
     \<and> chat req (snd (startup_event getenv genai w))
         = (HTTPException 503 DETALHE_503, snd (startup_event getenv genai w))
     \<and> fst (chat req (snd (startup_event getenv genai
              (w\<lparr>arquivos := (arquivos w)(KNOWLEDGE_BASE_FILE := None)\<rparr>))))
         = fst (chat req (snd (startup_event getenv genai w)))"
proof -
  let ?w0 = "w\<lparr>arquivos := (arquivos w)(KNOWLEDGE_BASE_FILE := None)\<rparr>"
  have "arquivos ?w0 KNOWLEDGE_BASE_FILE = None" by simp
  from startup_sem_base [OF this, of getenv genai]
  have "falsy_str (base_conhecimento (snd (startup_event getenv genai ?w0)))" by simp
  then have a: "fst (chat req (snd (startup_event getenv genai ?w0))) = HTTPException 503 DETALHE_503"
    by (simp add: chat_503_falsy)
  from startup_base [OF assms, of getenv genai]
  have b: "fst (startup_event getenv genai w) = None"
    and c: "base_conhecimento (snd (startup_event getenv genai w)) = Some []"
    by simp_all
  from c have "falsy_str (base_conhecimento (snd (startup_event getenv genai w)))" by simp
  then have d: "chat req (snd (startup_event getenv genai w))
         = (HTTPException 503 DETALHE_503, snd (startup_event getenv genai w))"
    by (rule chat_503_falsy)
  from a b c d show ?thesis by simp
qed

theorem chat_503_base_vazia_witness:
  "arquivos mundo_arquivo_vazio KNOWLEDGE_BASE_FILE = Some (Arquivo True [])
   \<and> chat_session (snd (startup_event getenv_exemplo genai_exemplo mundo_arquivo_vazio))
       = Some sessao_exemplo
   \<and> base_conhecimento (snd (startup_event getenv_exemplo genai_exemplo mundo_arquivo_vazio))
       = Some []
   \<and> fst (chat \<lparr>message = str ''Q''\<rparr>
            (snd (startup_event getenv_exemplo genai_exemplo mundo_arquivo_vazio)))
       = HTTPException 503 DETALHE_503"
proof -
  have h: "arquivos mundo_arquivo_vazio KNOWLEDGE_BASE_FILE = Some (Arquivo True [])"
    by (simp add: mundo_arquivo_vazio_def)
  have s: "chat_session (snd (startup_event getenv_exemplo genai_exemplo mundo_arquivo_vazio))
       = Some sessao_exemplo"
    by (simp add: startup_event_def carregar_conhecimento_def
        open_r_read_simples [OF nome_simples_KNOWLEDGE_BASE_FILE] logging_def
        iniciar_gemini_def Let_def mundo_arquivo_vazio_def getenv_exemplo_def genai_exemplo_def
        str_def)
  from chat_503_base_vazia [OF h, of getenv_exemplo genai_exemplo "\<lparr>message = str ''Q''\<rparr>"] h s
  show ?thesis by simp
qed

text \<open>
  Claim C5, as the code has it. For every path: when opening the file raises
  \<^verbatim>\<open>FileNotFoundError\<close> (the file, or a directory on the way to it, does not exist), the
  loader returns \<^verbatim>\<open>None\<close> and writes one error record that names the path; when the
  file is opened and decodes as UTF-8, it returns the whole text, with the line endings
  CR LF and CR read as LF and nothing else changed, and writes nothing; and any other
  exception of opening or reading (no permission, a directory, a path through a
  regular file, a null character or a name too long in the path, bytes that are not
  UTF-8) leaves the loader. For a plain file name these are the cases of nothing at
  the name, of a file there, and of anything else there.
\<close>

theorem carregar_conhecimento_arquivo_ausente:
  "(open_r_read (arquivos w) caminho = Inl e \<and> exc_class e = FileNotFoundError \<longrightarrow>
      carregar_conhecimento caminho w =
        (Inr None,
         logging ERROR
           ([10060] @ str '' ERRO: Arquivo da base de conhecimento n'' @ [227]
            @ str ''o encontrado em '' @ [39] @ caminho @ [39] @ str ''.'') w))
   \<and> (open_r_read (arquivos w) caminho = Inr lido \<longrightarrow>
        carregar_conhecimento caminho w = (Inr (Some lido), w))
   \<and> (open_r_read (arquivos w) caminho = Inl e \<and> exc_class e \<noteq> FileNotFoundError \<longrightarrow>
        carregar_conhecimento caminho w = (Inl e, w))
   \<and> (nome_simples caminho \<and> arquivos w caminho = None \<longrightarrow>
        carregar_conhecimento caminho w =
          (Inr None,
           logging ERROR
             ([10060] @ str '' ERRO: Arquivo da base de conhecimento n'' @ [227]
              @ str ''o encontrado em '' @ [39] @ caminho @ [39] @ str ''.'') w))
   \<and> (nome_simples caminho \<and> arquivos w caminho = Some (Arquivo True texto) \<longrightarrow>
        carregar_conhecimento caminho w = (Inr (Some (universal_newlines texto)), w))
   \<and> (nome_simples caminho \<and> arquivos w caminho = Some (Arquivo True texto)
        \<and> 13 \<notin> set texto \<longrightarrow>
        carregar_conhecimento caminho w = (Inr (Some texto), w))
   \<and> (nome_simples caminho
        \<and> (arquivos w caminho = Some (Arquivo False texto)
            \<or> arquivos w caminho = Some Diretorio
            \<or> arquivos w caminho = Some SemPermissao) \<longrightarrow>
        (\<exists>x. carregar_conhecimento caminho w = (Inl x, w)))
   \<and> (0 \<in> set caminho \<longrightarrow> (\<exists>x. carregar_conhecimento caminho w = (Inl x, w)))"
proof -
  have nul: "\<exists>x. carregar_conhecimento caminho w = (Inl x, w)" if "0 \<in> set caminho"
  proof -
    from resolver_nul [OF that, of "arquivos w" False] obtain x where
      "resolver (arquivos w) False caminho = Inl x"
      and "exc_class x = ValueError \<or> exc_class x = UnicodeEncodeError"
      by blast
    then show ?thesis
      by (auto simp: carregar_conhecimento_def open_r_read_def)
  qed
  have simples: "nome_simples caminho \<Longrightarrow>
      open_r_read (arquivos w) caminho =
        (case arquivos w caminho of
           None \<Rightarrow> Inl (ENOENT caminho)
         | Some (Arquivo utf8 t) \<Rightarrow>
             if utf8 then Inr (universal_newlines t)
             else Inl (PyExn UnicodeDecodeError (str ''utf-8 codec can not decode byte''))
         | Some Diretorio \<Rightarrow> Inl (EISDIR caminho)
         | Some SemPermissao \<Rightarrow> Inl (EACCES caminho)
         | Some (ErroOS errno strerror) \<Rightarrow> Inl (OSError_de errno strerror caminho))"
    by (rule open_r_read_simples)
  show ?thesis
    using nul simples
    by (auto simp: carregar_conhecimento_def classe_ENOENT classe_outros universal_newlines_id)
qed

theorem carregar_conhecimento_arquivo_ausente_witness:
  "arquivos mundo_exemplo KNOWLEDGE_BASE_FILE = None
   \<and> fst (carregar_conhecimento KNOWLEDGE_BASE_FILE mundo_exemplo) = Inr None
   \<and> registros (snd (carregar_conhecimento KNOWLEDGE_BASE_FILE mundo_exemplo)) =
       [(ERROR, [10060] @ str '' ERRO: Arquivo da base de conhecimento n'' @ [227]
                @ str ''o encontrado em '' @ [39] @ str ''dados.txt'' @ [39] @ str ''.'')]
   \<and> arquivos mundo_com_dados KNOWLEDGE_BASE_FILE
       = Some (Arquivo True (str ''A'' @ [13, 10] @ str ''B'' @ [13] @ str ''C'' @ [10]))
   \<and> carregar_conhecimento KNOWLEDGE_BASE_FILE mundo_com_dados
       = (Inr (Some (str ''A'' @ [10] @ str ''B'' @ [10] @ str ''C'' @ [10])), mundo_com_dados)
   \<and> open_r_read (arquivos mundo_com_dados) (str ''dados.txt/x'')
       = Inl (ENOTDIR (str ''dados.txt/x''))
   \<and> carregar_conhecimento (str ''dados.txt/x'') mundo_com_dados
       = (Inl (ENOTDIR (str ''dados.txt/x'')), mundo_com_dados)"
proof -
  note ks = nome_simples_KNOWLEDGE_BASE_FILE
  have n: "arquivos mundo_exemplo KNOWLEDGE_BASE_FILE = None"
    and r: "registros mundo_exemplo = []"
    by (simp_all add: mundo_exemplo_def)
  from carregar_conhecimento_arquivo_ausente [of mundo_exemplo KNOWLEDGE_BASE_FILE] ks n r
  have a: "fst (carregar_conhecimento KNOWLEDGE_BASE_FILE mundo_exemplo) = Inr None"
    and b: "registros (snd (carregar_conhecimento KNOWLEDGE_BASE_FILE mundo_exemplo)) =
       [(ERROR, [10060] @ str '' ERRO: Arquivo da base de conhecimento n'' @ [227]
                @ str ''o encontrado em '' @ [39] @ str ''dados.txt'' @ [39] @ str ''.'')]"
    by (simp_all add: logging_def KNOWLEDGE_BASE_FILE_def)
  have v: "arquivos mundo_com_dados KNOWLEDGE_BASE_FILE
       = Some (Arquivo True (str ''A'' @ [13, 10] @ str ''B'' @ [13] @ str ''C'' @ [10]))"
    by (simp add: mundo_com_dados_def)
  have u: "universal_newlines (str ''A'' @ [13, 10] @ str ''B'' @ [13] @ str ''C'' @ [10])
       = str ''A'' @ [10] @ str ''B'' @ [10] @ str ''C'' @ [10]"
    by (simp add: str_def)
  from carregar_conhecimento_arquivo_ausente
         [of mundo_com_dados KNOWLEDGE_BASE_FILE _ _
             "str ''A'' @ [13, 10] @ str ''B'' @ [13] @ str ''C'' @ [10]"] ks v
  have c: "carregar_conhecimento KNOWLEDGE_BASE_FILE mundo_com_dados
       = (Inr (Some (str ''A'' @ [10] @ str ''B'' @ [10] @ str ''C'' @ [10])), mundo_com_dados)"
    unfolding u by simp
  have d: "open_r_read (arquivos mundo_com_dados) (str ''dados.txt/x'')
       = Inl (ENOTDIR (str ''dados.txt/x''))"
    by (simp add: open_r_read_def resolver_def mundo_com_dados_def KNOWLEDGE_BASE_FILE_def
        str_def surrogate_def surrogateescape_def utf8_len_def utf8_bytes_def PATH_MAX_def
        NAME_MAX_def
        componentes_def no_em_def chave_def Let_def)
  have k: "exc_class (ENOTDIR (str ''dados.txt/x'')) \<noteq> FileNotFoundError"
    by (simp add: classe_outros)
  from carregar_conhecimento_arquivo_ausente
         [of mundo_com_dados "str ''dados.txt/x''" "ENOTDIR (str ''dados.txt/x'')"] d k
  have f: "carregar_conhecimento (str ''dados.txt/x'') mundo_com_dados
       = (Inl (ENOTDIR (str ''dados.txt/x'')), mundo_com_dados)"
    by simp
  from n a b v c d f show ?thesis by simp
qed

text \<open>
  Claim C5 as it is worded has the loader return \<^verbatim>\<open>None\<close> whatever keeps the file from
  being opened, and the text as it is otherwise. A file that the process may not open
  raises \<^verbatim>\<open>PermissionError\<close>, which the loader does not catch: it returns nothing and
  writes no record. And a file holding \<^verbatim>\<open>A\r\nB\rC\n\<close> is returned as \<^verbatim>\<open>A\nB\nC\n\<close>.
\<close>

theorem carregar_conhecimento_arquivo_ausente_counterexample:
  "arquivos mundo_sem_permissao KNOWLEDGE_BASE_FILE = Some SemPermissao
   \<and> carregar_conhecimento KNOWLEDGE_BASE_FILE mundo_sem_permissao =
       (Inl (EACCES KNOWLEDGE_BASE_FILE), mundo_sem_permissao)
   \<and> exc_class (EACCES KNOWLEDGE_BASE_FILE) = PermissionError
   \<and> conteudo (arquivos mundo_com_dados KNOWLEDGE_BASE_FILE)
       = str ''A'' @ [13, 10] @ str ''B'' @ [13] @ str ''C'' @ [10]
   \<and> fst (carregar_conhecimento KNOWLEDGE_BASE_FILE mundo_com_dados)
       = Inr (Some (str ''A'' @ [10] @ str ''B'' @ [10] @ str ''C'' @ [10]))"
  by (simp add: carregar_conhecimento_def
      open_r_read_simples [OF nome_simples_KNOWLEDGE_BASE_FILE]
      mundo_sem_permissao_def mundo_com_dados_def classe_outros str_def)

section \<open>The lead endpoint\<close>

lemma linhas_append: "linhas (xs @ ys) = linhas xs + linhas ys"
  by (simp add: linhas_def)

lemma linhas_linha_lead: "linhas (linha_lead lead) = 1 + linhas (name lead) + linhas (email lead)"
  by (simp add: linha_lead_def linhas_append) (simp add: linhas_def str_def)

lemma capturar_lead_sucesso:
  "status_code (fst (capturar_lead lead w)) = 200 \<longleftrightarrow>
     (arquivos w LEADS_FILE = None \<or> (\<exists>u t. arquivos w LEADS_FILE = Some (Arquivo u t)))
     \<and> erro_codif False 0 (linha_lead lead) = None"
  by (auto simp: capturar_lead_def open_a_write_simples [OF nome_simples_LEADS_FILE]
      escrever_def logging_def Let_def split: option.splits node.splits)

lemma capturar_lead_arquivo:
  assumes "status_code (fst (capturar_lead lead w)) = 200"
  shows "fst (capturar_lead lead w) =
           Retorno (JObj [(str ''status'', JStr (str ''success'')),
                          (str ''message'', JStr (str ''Lead recebido com sucesso!''))])"
    and "\<exists>u. arquivos (snd (capturar_lead lead w)) LEADS_FILE =
           Some (Arquivo u (conteudo (arquivos w LEADS_FILE) @ linha_lead lead))"
    and "\<And>p. p \<noteq> LEADS_FILE \<Longrightarrow> arquivos (snd (capturar_lead lead w)) p = arquivos w p"
  using assms
  by (auto simp: capturar_lead_def open_a_write_simples [OF nome_simples_LEADS_FILE]
      escrever_def logging_def Let_def split: option.splits node.splits)

text \<open>
  Claim C3, as the code has it. For every lead, a call of the handler that succeeds
  returns the success dictionary (status 200) and leaves the lead file, created if it
  was absent, with its former text followed by the text
  \<^verbatim>\<open>Nome: <name>, Email: <email>\<close> and a newline; calling again with the same lead succeeds
  and leaves the former text followed by that text twice. The text written is one line
  more for each newline in the name and in the email: exactly one line when they have
  none.
\<close>

theorem capturar_lead_acrescenta:
  assumes "status_code (fst (capturar_lead lead w)) = 200"
  shows "fst (capturar_lead lead w) =
           Retorno (JObj [(str ''status'', JStr (str ''success'')),
                          (str ''message'', JStr (str ''Lead recebido com sucesso!''))])
     \<and> (\<exists>u. arquivos (snd (capturar_lead lead w)) LEADS_FILE =
           Some (Arquivo u (conteudo (arquivos w LEADS_FILE) @ linha_lead lead)))
     \<and> linha_lead lead = str ''Nome: '' @ name lead @ str '', Email: '' @ email lead @ [10]
     \<and> linhas (linha_lead lead) = 1 + linhas (name lead) + linhas (email lead)
     \<and> status_code (fst (capturar_lead lead (snd (capturar_lead lead w)))) = 200
     \<and> conteudo (arquivos (snd (capturar_lead lead (snd (capturar_lead lead w)))) LEADS_FILE) =
         conteudo (arquivos w LEADS_FILE) @ linha_lead lead @ linha_lead lead"
proof -
  let ?w1 = "snd (capturar_lead lead w)"
  from capturar_lead_arquivo(2) [OF assms] obtain u where
    u: "arquivos ?w1 LEADS_FILE = Some (Arquivo u (conteudo (arquivos w LEADS_FILE) @ linha_lead lead))"
    by blast
  moreover from assms have "erro_codif False 0 (linha_lead lead) = None"
    by (simp add: capturar_lead_sucesso)
  ultimately have s2: "status_code (fst (capturar_lead lead ?w1)) = 200"
    by (simp add: capturar_lead_sucesso)
  from capturar_lead_arquivo(2) [OF s2] u
  have c2: "conteudo (arquivos (snd (capturar_lead lead ?w1)) LEADS_FILE) =
         conteudo (arquivos w LEADS_FILE) @ linha_lead lead @ linha_lead lead"
    by auto
  from capturar_lead_arquivo(1) [OF assms] u s2 c2 show ?thesis
    by (simp add: linhas_linha_lead) (simp add: linha_lead_def)
qed

theorem capturar_lead_acrescenta_witness:
  "status_code (fst (capturar_lead lead_ana mundo_exemplo)) = 200
   \<and> arquivos mundo_exemplo LEADS_FILE = None
   \<and> conteudo (arquivos (snd (capturar_lead lead_ana mundo_exemplo)) LEADS_FILE)
       = str ''Nome: Ana, Email: ana@example.com'' @ [10]
   \<and> conteudo (arquivos (snd (capturar_lead lead_ana (snd (capturar_lead lead_ana mundo_exemplo))))
        LEADS_FILE)
       = str ''Nome: Ana, Email: ana@example.com'' @ [10]
         @ str ''Nome: Ana, Email: ana@example.com'' @ [10]"
proof -
  have n: "arquivos mundo_exemplo LEADS_FILE = None"
    by (simp add: mundo_exemplo_def)
  have h: "status_code (fst (capturar_lead lead_ana mundo_exemplo)) = 200"
    by (simp add: capturar_lead_sucesso n linha_lead_def lead_ana_def str_def surrogate_def)
  have l: "linha_lead lead_ana = str ''Nome: Ana, Email: ana@example.com'' @ [10]"
    by (simp add: linha_lead_def lead_ana_def str_def)
  from capturar_lead_acrescenta [OF h] h n show ?thesis
    unfolding l by auto
qed

text \<open>
  Claim C3 as it is worded has every successful call add exactly one line. The name is
  free text: for the name \<^verbatim>\<open>Ana\nMaria\<close> one successful call on an absent file leaves a
  file of two lines.
\<close>

theorem capturar_lead_acrescenta_counterexample:
  "status_code (fst (capturar_lead lead_duas_linhas mundo_exemplo)) = 200
   \<and> linhas (conteudo (arquivos mundo_exemplo LEADS_FILE)) = 0
   \<and> linhas (conteudo (arquivos (snd (capturar_lead lead_duas_linhas mundo_exemplo)) LEADS_FILE)) = 2"
  by (simp add: capturar_lead_def open_a_write_simples [OF nome_simples_LEADS_FILE]
      escrever_def logging_def Let_def mundo_exemplo_def
      linha_lead_def lead_duas_linhas_def linhas_def str_def surrogate_def)

text \<open>
  Claim C6, as the code has it. For every request body that is an object whose
  \<^verbatim>\<open>name\<close> is missing or not a string, or whose \<^verbatim>\<open>email\<close> is missing, not a string, or
  a string that the email validation rejects, the body is rejected (status 422) before
  the handler runs, and the state, the lead file with it, is as it was.
\<close>

theorem post_leads_422:
  assumes "campo_str (campo kvs ''name'') = None
           \<or> campo_str (campo kvs ''email'') = None
           \<or> (\<exists>e. campo_str (campo kvs ''email'') = Some e \<and> EmailStr e = None)"
  shows "post_leads EmailStr (JObj kvs) w = (RequestValidationError, w)
         \<and> status_code (fst (post_leads EmailStr (JObj kvs) w)) = 422"
  using assms by (auto simp: post_leads_def validar_Lead_def split: option.splits)

theorem post_leads_422_witness:
  "post_leads EmailStr_exemplo
     (JObj [(str ''name'', JStr (str ''Ana'')), (str ''email'', JStr (str ''not-an-email''))])
     mundo_exemplo
   = (RequestValidationError, mundo_exemplo)"
proof -
  let ?kvs = "[(str ''name'', JStr (str ''Ana'')), (str ''email'', JStr (str ''not-an-email''))]"
  have e: "campo_str (campo ?kvs ''email'') = Some (str ''not-an-email'')"
    by (simp add: campo_def str_def)
  have r: "EmailStr_exemplo (str ''not-an-email'') = None"
    by (simp add: EmailStr_exemplo_def str_def)
  have h: "campo_str (campo ?kvs ''name'') = None
           \<or> campo_str (campo ?kvs ''email'') = None
           \<or> (\<exists>e. campo_str (campo ?kvs ''email'') = Some e \<and> EmailStr_exemplo e = None)"
    using e r by blast
  from post_leads_422 [OF h] show ?thesis by simp
qed

text \<open>
  Claim C6 as it is worded has a name that is not a non-empty string rejected. The
  field is declared \<^verbatim>\<open>str\<close>, with no least length: the body with the empty name and an
  accepted address reaches the handler, which answers 200 and writes the line.
\<close>

theorem post_leads_422_counterexample:
  "status_code (fst (post_leads EmailStr_exemplo
      (JObj [(str ''name'', JStr []), (str ''email'', JStr (str ''ana@example.com''))])
      mundo_exemplo)) = 200
   \<and> arquivos mundo_exemplo LEADS_FILE = None
   \<and> arquivos (snd (post_leads EmailStr_exemplo
      (JObj [(str ''name'', JStr []), (str ''email'', JStr (str ''ana@example.com''))])
      mundo_exemplo)) LEADS_FILE
     = Some (Arquivo True (str ''Nome: , Email: ana@example.com'' @ [10]))"
  by (simp add: post_leads_def validar_Lead_def campo_def EmailStr_exemplo_def
      capturar_lead_def open_a_write_simples [OF nome_simples_LEADS_FILE]
      escrever_def logging_def Let_def mundo_exemplo_def
      linha_lead_def str_def surrogate_def)

end
